theory Spec2Isabelle
  imports Complex_Main
begin

section \<open>Python values and errors\<close>

text \<open>
  A Python float is an IEEE-754 double: a finite value, one of the two infinities, or a
  NaN. The two zeros, which \<^verbatim>\<open>==\<close> does not tell apart, are one value.
\<close>

datatype pyfloat = Fin real | PInf | NInf | NaN

text \<open>
  The values a JSON document decodes to. Integers are unbounded, as in Python.
\<close>

datatype pyval =
    PNone
  | PBool bool
  | PInt int
  | PFloat pyfloat
  | PStr string
  | PList "pyval list"
  | PDict "(string \<times> pyval) list"

datatype py_error =
    TypeError
  | AttributeError
  | ZeroDivisionError
  | OverflowError
  | NameError
  | Exception string

type_synonym pydict = "(string \<times> pyval) list"


fun dict_set :: "('k \<times> 'v) list \<Rightarrow> 'k \<Rightarrow> 'v \<Rightarrow> ('k \<times> 'v) list" where
  "dict_set [] k v = [(k, v)]"
| "dict_set ((k', v') # d) k v = (if k' = k then (k', v) # d else (k', v') # dict_set d k v)"

section \<open>Python arithmetic\<close>

text \<open>Rounding to the nearest integer, ties to the even one.\<close>

definition round_half_even :: "real \<Rightarrow> int" where
  "round_half_even y =
     (let f = \<lfloor>y\<rfloor>; d = y - of_int f
      in if d < 1 / 2 then f else if 1 / 2 < d then f + 1 else if even f then f else f + 1)"

text \<open>
  The double nearest to a real number (round to nearest, ties to even). A double has 53
  significant bits; a number in the binade \<open>[2^e, 2^(e+1))\<close> is rounded to a multiple of
  \<open>2^(e-52)\<close>, and of \<open>2^(-1074)\<close> below the normal range. A result of magnitude
  \<open>2^1024\<close> or more is an infinity.
\<close>

definition binade :: "real \<Rightarrow> int" where
  "binade x = \<lfloor>log 2 \<bar>x\<bar>\<rfloor>"

definition round_double :: "real \<Rightarrow> pyfloat" where
  "round_double x =
     (if x = 0 then Fin 0
      else let q = max (binade x) (- 1022) - 52;
               r = of_int (round_half_even (x / 2 powi q)) * 2 powi q
           in if 2 ^ 1024 \<le> r then PInf else if r \<le> - (2 ^ 1024) then NInf else Fin r)"

text \<open>Addition, subtraction, multiplication and division of floats.\<close>

fun fneg :: "pyfloat \<Rightarrow> pyfloat" where
  "fneg (Fin a) = Fin (- a)"
| "fneg PInf = NInf"
| "fneg NInf = PInf"
| "fneg NaN = NaN"

fun fadd :: "pyfloat \<Rightarrow> pyfloat \<Rightarrow> pyfloat" where
  "fadd (Fin a) (Fin b) = round_double (a + b)"
| "fadd NaN y = NaN"
| "fadd x NaN = NaN"
| "fadd PInf NInf = NaN"
| "fadd NInf PInf = NaN"
| "fadd PInf y = PInf"
| "fadd x PInf = PInf"
| "fadd NInf y = NInf"
| "fadd x NInf = NInf"

definition fsub :: "pyfloat \<Rightarrow> pyfloat \<Rightarrow> pyfloat" where
  "fsub x y = fadd x (fneg y)"

definition signed_inf :: "bool \<Rightarrow> pyfloat" where
  "signed_inf positive = (if positive then PInf else NInf)"

fun fmul :: "pyfloat \<Rightarrow> pyfloat \<Rightarrow> pyfloat" where
  "fmul (Fin a) (Fin b) = round_double (a * b)"
| "fmul NaN y = NaN"
| "fmul x NaN = NaN"
| "fmul (Fin a) PInf = (if a = 0 then NaN else signed_inf (0 < a))"
| "fmul (Fin a) NInf = (if a = 0 then NaN else signed_inf (a < 0))"
| "fmul PInf (Fin b) = (if b = 0 then NaN else signed_inf (0 < b))"
| "fmul NInf (Fin b) = (if b = 0 then NaN else signed_inf (b < 0))"
| "fmul PInf PInf = PInf"
| "fmul NInf NInf = PInf"
| "fmul PInf NInf = NInf"
| "fmul NInf PInf = NInf"

text \<open>Python raises \<^verbatim>\<open>ZeroDivisionError\<close> on every float division by zero.\<close>

fun fdiv :: "pyfloat \<Rightarrow> pyfloat \<Rightarrow> py_error + pyfloat" where
  "fdiv (Fin a) (Fin b) = (if b = 0 then Inl ZeroDivisionError else Inr (round_double (a / b)))"
| "fdiv PInf (Fin b) = (if b = 0 then Inl ZeroDivisionError else Inr (signed_inf (0 < b)))"
| "fdiv NInf (Fin b) = (if b = 0 then Inl ZeroDivisionError else Inr (signed_inf (b < 0)))"
| "fdiv NaN (Fin b) = (if b = 0 then Inl ZeroDivisionError else Inr NaN)"
| "fdiv x NaN = Inr NaN"
| "fdiv (Fin a) y = Inr (Fin 0)"
| "fdiv x y = Inr NaN"

text \<open>
  A number is an \<^verbatim>\<open>int\<close> or a \<^verbatim>\<open>float\<close>; \<^verbatim>\<open>True\<close> and \<^verbatim>\<open>False\<close> count as 1 and 0.
  Anything else in an arithmetic operation raises \<^verbatim>\<open>TypeError\<close>.
\<close>

datatype pynum = NInt int | NFloat pyfloat



text \<open>An \<^verbatim>\<open>int\<close> too large for a double raises \<^verbatim>\<open>OverflowError\<close> when it is converted.\<close>

definition int_to_float :: "int \<Rightarrow> py_error + pyfloat" where
  "int_to_float i =
     (case round_double (of_int i) of Fin r \<Rightarrow> Inr (Fin r) | _ \<Rightarrow> Inl OverflowError)"

fun to_float :: "pynum \<Rightarrow> py_error + pyfloat" where
  "to_float (NInt i) = int_to_float i"
| "to_float (NFloat x) = Inr x"


fun num_sub :: "pynum \<Rightarrow> pynum \<Rightarrow> py_error + pynum" where
  "num_sub (NInt a) (NInt b) = Inr (NInt (a - b))"
| "num_sub x y =
     (case to_float x of Inl e \<Rightarrow> Inl e
      | Inr a \<Rightarrow> (case to_float y of Inl e \<Rightarrow> Inl e | Inr b \<Rightarrow> Inr (NFloat (fsub a b))))"

fun num_mul :: "pynum \<Rightarrow> pynum \<Rightarrow> py_error + pynum" where
  "num_mul (NInt a) (NInt b) = Inr (NInt (a * b))"
| "num_mul x y =
     (case to_float x of Inl e \<Rightarrow> Inl e
      | Inr a \<Rightarrow> (case to_float y of Inl e \<Rightarrow> Inl e | Inr b \<Rightarrow> Inr (NFloat (fmul a b))))"

text \<open>
  True division. The quotient of two integers is the double nearest to the exact
  quotient, and \<^verbatim>\<open>OverflowError\<close> when that is out of range.
\<close>

fun num_truediv :: "pynum \<Rightarrow> pynum \<Rightarrow> py_error + pynum" where
  "num_truediv (NInt a) (NInt b) =
     (if b = 0 then Inl ZeroDivisionError
      else (case round_double (of_int a / of_int b) of
              Fin r \<Rightarrow> Inr (NFloat (Fin r)) | _ \<Rightarrow> Inl OverflowError))"
| "num_truediv x y =
     (case to_float x of Inl e \<Rightarrow> Inl e
      | Inr a \<Rightarrow> (case to_float y of Inl e \<Rightarrow> Inl e
          | Inr b \<Rightarrow> (case fdiv a b of Inl e \<Rightarrow> Inl e | Inr c \<Rightarrow> Inr (NFloat c))))"

text \<open>\<^verbatim>\<open>x == 0\<close> and the order between numbers, which Python decides exactly.\<close>

fun num_is_zero :: "pynum \<Rightarrow> bool" where
  "num_is_zero (NInt i) = (i = 0)"
| "num_is_zero (NFloat (Fin r)) = (r = 0)"
| "num_is_zero (NFloat x) = False"

fun num_less :: "pynum \<Rightarrow> int \<Rightarrow> bool" where
  "num_less (NInt i) c = (i < c)"
| "num_less (NFloat (Fin r)) c = (r < of_int c)"
| "num_less (NFloat NInf) c = True"
| "num_less (NFloat x) c = False"

fun num_greater :: "pynum \<Rightarrow> int \<Rightarrow> bool" where
  "num_greater (NInt i) c = (c < i)"
| "num_greater (NFloat (Fin r)) c = (of_int c < r)"
| "num_greater (NFloat PInf) c = True"
| "num_greater (NFloat x) c = False"

fun num_le :: "pynum \<Rightarrow> int \<Rightarrow> bool" where
  "num_le (NInt i) c = (i \<le> c)"
| "num_le (NFloat (Fin r)) c = (r \<le> of_int c)"
| "num_le (NFloat NInf) c = True"
| "num_le (NFloat x) c = False"

fun num_ge :: "pynum \<Rightarrow> int \<Rightarrow> bool" where
  "num_ge (NInt i) c = (c \<le> i)"
| "num_ge (NFloat (Fin r)) c = (of_int c \<le> r)"
| "num_ge (NFloat PInf) c = True"
| "num_ge (NFloat x) c = False"

text \<open>Truth value of an object, as \<^verbatim>\<open>not x\<close> and \<^verbatim>\<open>x or y\<close> test it.\<close>

fun truthy :: "pyval \<Rightarrow> bool" where
  "truthy PNone = False"
| "truthy (PBool b) = b"
| "truthy (PInt i) = (i \<noteq> 0)"
| "truthy (PFloat x) = (x \<noteq> Fin 0)"
| "truthy (PStr s) = (s \<noteq> [])"
| "truthy (PList xs) = (xs \<noteq> [])"
| "truthy (PDict kvs) = (kvs \<noteq> [])"

definition py_or :: "pyval \<Rightarrow> pyval \<Rightarrow> pyval" where
  "py_or x y = (if truthy x then x else y)"

section \<open>sector.py: aggregation by sector\<close>













section \<open>bias-router.py: the sector view of a portfolio\<close>



section \<open>result-compiler.py\<close>

text \<open>
  The bucket is the list of its objects, key and body, in the order in which S3 lists
  them. \<^verbatim>\<open>list_objects_v2\<close> returns the keys that start with the prefix, at most 1000 of
  them in one response; the response has no \<^verbatim>\<open>Contents\<close> entry when no key matches.
\<close>

type_synonym bucket = "(string \<times> string) list"

definition starts_with :: "string \<Rightarrow> string \<Rightarrow> bool" where
  "starts_with s p = (take (length p) s = p)"

definition list_objects_v2 :: "bucket \<Rightarrow> string \<Rightarrow> string list" where
  "list_objects_v2 b prefix = take 1000 (filter (\<lambda>k. starts_with k prefix) (map fst b))"

definition get_object :: "bucket \<Rightarrow> string \<Rightarrow> string option" where
  "get_object b key = map_of b key"

definition put_object :: "bucket \<Rightarrow> string \<Rightarrow> string \<Rightarrow> bucket" where
  "put_object b key body = dict_set b key body"

text \<open>
  \<^verbatim>\<open>s.replace(old, "")\<close>: every occurrence of \<open>old\<close>, found from left to right without
  overlap, is removed.
\<close>

function py_remove :: "string \<Rightarrow> string \<Rightarrow> string" where
  "py_remove [] old = []"
| "py_remove (c # cs) old =
     (if old \<noteq> [] \<and> starts_with (c # cs) old then py_remove (drop (length old) (c # cs)) old
      else c # py_remove cs old)"
  by pat_completeness auto
termination
  by (relation "measure (\<lambda>(s, old). length s)") (auto simp: neq_Nil_conv)

declare py_remove.simps [simp del]

text \<open>The text of a list of strings without quotes or escapes, as an f-string prints it.\<close>

fun join_repr :: "string list \<Rightarrow> string" where
  "join_repr [] = []"
| "join_repr [x] = [CHR 0x27] @ x @ [CHR 0x27]"
| "join_repr (x # y # ys) = [CHR 0x27] @ x @ [CHR 0x27] @ '', '' @ join_repr (y # ys)"

definition py_repr_list :: "string list \<Rightarrow> string" where
  "py_repr_list xs = ''['' @ join_repr xs @ '']''"

definition required_files :: "string list" where
  "required_files =
     [''location_results.json'', ''momentum_results.json'', ''sector_results.json'',
      ''size_results.json'', ''volatility_results.json'']"

definition result_prefix :: "string \<Rightarrow> string" where
  "result_prefix uniqueIdentifier = ''results/'' @ uniqueIdentifier @ ''/''"

definition found_files :: "bucket \<Rightarrow> string \<Rightarrow> string list" where
  "found_files b uniqueIdentifier =
     map (\<lambda>key. py_remove key (result_prefix uniqueIdentifier))
       (list_objects_v2 b (result_prefix uniqueIdentifier))"

definition missing_files :: "bucket \<Rightarrow> string \<Rightarrow> string list" where
  "missing_files b uniqueIdentifier =
     filter (\<lambda>f. f \<notin> set (found_files b uniqueIdentifier)) required_files"

text \<open>
  The loop that reads the five documents. \<^verbatim>\<open>ClientError\<close> is not imported in the
  module, so whatever is raised inside the \<^verbatim>\<open>try\<close> (a key that does not exist, a body
  that is not JSON) ends as a \<^verbatim>\<open>NameError\<close> when the \<^verbatim>\<open>except\<close> clause is evaluated.
  \<^verbatim>\<open>
  for filename in required_files:
      key = f"{prefix}{filename}"
      try:
          s3_obj = s3_client.get_object(Bucket=bucket_name, Key=key)
          content = s3_obj["Body"].read().decode("utf-8")
          combined_data[filename.replace(".json", "")] = json.loads(content)
      except ClientError as e:
          raise Exception(f"Error reading {key}: {str(e)}")
  \<close>
\<close>

fun read_results ::
  "(string \<Rightarrow> pyval option) \<Rightarrow> bucket \<Rightarrow> string \<Rightarrow> pydict \<Rightarrow> string list \<Rightarrow> py_error + pydict" where
  "read_results json_loads b prefix combined_data [] = Inr combined_data"
| "read_results json_loads b prefix combined_data (filename # rest) =
     (case get_object b (prefix @ filename) of
        None \<Rightarrow> Inl NameError
      | Some content \<Rightarrow>
          (case json_loads content of
             None \<Rightarrow> Inl NameError
           | Some doc \<Rightarrow>
               read_results json_loads b prefix
                 (dict_set combined_data (py_remove filename ''.json'') doc) rest))"

text \<open>
  The handler, with the identifier as the text that the f-strings print for
  \<^verbatim>\<open>event.get("uniqueIdentifier")\<close>; \<^verbatim>\<open>json.loads\<close> (\<open>None\<close> when it raises) and
  \<^verbatim>\<open>json.dumps\<close> are the library's. It returns its result, or the exception that leaves
  it, and the bucket as it is afterwards.
  \<^verbatim>\<open>
  prefix = f"results/{uniqueIdentifier}/"
  response = s3_client.list_objects_v2(Bucket=bucket_name, Prefix=prefix)
  if "Contents" not in response:
      raise Exception(f"No files found under {prefix}")
  response = s3_client.list_objects_v2(Bucket=bucket_name, Prefix=prefix)
  if "Contents" not in response:
      raise Exception(f"No files found under {prefix}")
  found_files = [obj["Key"].replace(prefix, "") for obj in response["Contents"]]
  missing_files = [f for f in required_files if f not in found_files]
  if missing_files:
      raise Exception(f"Missing required result files: {missing_files}")
  combined_data = {}
  for filename in required_files: ...
  combined_key = f"{uniqueIdentifier}_combined_results.json"
  s3_client.put_object(Bucket=bucket_name, Key=combined_key,
                       Body=json.dumps(combined_data, indent=4), ...)
  return {'statusCode': 200, 'body': json.dumps('Hello from Lambda!')}
  \<close>
\<close>

datatype response = Response (statusCode: nat) (body: string)

definition compiler_lambda_handler ::
  "(string \<Rightarrow> pyval option) \<Rightarrow> (pyval \<Rightarrow> string) \<Rightarrow> bucket \<Rightarrow> string
     \<Rightarrow> (py_error + response) \<times> bucket" where
  "compiler_lambda_handler json_loads json_dumps b uniqueIdentifier =
     (let prefix = result_prefix uniqueIdentifier in
      if list_objects_v2 b prefix = [] then
        (Inl (Exception (''No files found under '' @ prefix)), b)
      else if list_objects_v2 b prefix = [] then
        (Inl (Exception (''No files found under '' @ prefix)), b)
      else if missing_files b uniqueIdentifier \<noteq> [] then
        (Inl (Exception (''Missing required result files: ''
                @ py_repr_list (missing_files b uniqueIdentifier))), b)
      else
        (case read_results json_loads b prefix [] required_files of
           Inl e \<Rightarrow> (Inl e, b)
         | Inr combined_data \<Rightarrow>
             (Inr (Response 200 (json_dumps (PStr ''Hello from Lambda!''))),
              put_object b (uniqueIdentifier @ ''_combined_results.json'')
                (json_dumps (PDict combined_data)))))"

section \<open>Verified properties\<close>



subsection \<open>Doubles\<close>

lemma round_half_even_of_int: "round_half_even (of_int n) = n"
  by (simp add: round_half_even_def)

lemma two_powi_pos: "0 < (2::real) powi k"
  by simp

lemma two_powi_less_imp: "(2::real) powi a < 2 powi b \<Longrightarrow> a < b"
proof (rule ccontr)
  assume l: "(2::real) powi a < 2 powi b" and "\<not> a < b"
  then have "b \<le> a" by simp
  then have "(2::real) powi b \<le> 2 powi a" by (rule power_int_increasing) simp
  with l show False by simp
qed

lemma two_powr_powi: "(2::real) powr of_int k = 2 powi k"
  by (rule powr_real_of_int') simp_all

lemma binade_iff:
  assumes "x \<noteq> 0"
  shows "(binade x = k) = (2 powi k \<le> \<bar>x\<bar> \<and> \<bar>x\<bar> < 2 powi (k + 1))"
proof -
  have pos: "0 < \<bar>x\<bar>" using assms by simp
  have "(\<lfloor>log 2 \<bar>x\<bar>\<rfloor> = k) = (2 powr of_int k \<le> \<bar>x\<bar> \<and> \<bar>x\<bar> < 2 powr of_int (k + 1))"
    by (rule floor_log_eq_powr_iff) (use pos in simp_all)
  then show ?thesis unfolding binade_def two_powr_powi .
qed

lemma binade_bounds:
  assumes "x \<noteq> 0"
  shows "2 powi binade x \<le> \<bar>x\<bar>" and "\<bar>x\<bar> < 2 powi (binade x + 1)"
  using binade_iff [OF assms, of "binade x"] by simp_all

lemma binade_eq:
  assumes "2 powi k \<le> \<bar>x\<bar>" "\<bar>x\<bar> < 2 powi (k + 1)"
  shows "binade x = k"
proof -
  have "0 < \<bar>x\<bar>" using assms(1) two_powi_pos [of k] by linarith
  then have "x \<noteq> 0" by simp
  then show ?thesis using binade_iff [of x k] assms by simp
qed

lemma dyadic_quantum:
  fixes n k :: int
  assumes "n \<noteq> 0" "\<bar>n\<bar> < 2 ^ 53" "- 1074 \<le> k"
  shows "max (binade (of_int n * 2 powi k)) (- 1022) - 52 \<le> k"
proof (cases "binade (of_int n * 2 powi k) \<le> - 1022")
  case True
  then show ?thesis using assms(3) by simp
next
  case False
  define x :: real where "x = of_int n * 2 powi k"
  have xnz: "x \<noteq> 0" using assms(1) by (simp add: x_def)
  have "(of_int \<bar>n\<bar> :: real) < of_int (2 ^ 53)" using assms(2) by (simp only: of_int_less_iff)
  then have n53: "(of_int \<bar>n\<bar> :: real) < 2 ^ 53" by simp
  have "\<bar>x\<bar> = of_int \<bar>n\<bar> * 2 powi k" by (simp add: x_def abs_mult)
  also have "\<dots> < 2 ^ 53 * 2 powi k"
    using n53 two_powi_pos [of k] by (rule mult_strict_right_mono)
  also have "\<dots> = 2 powi (53 + k)"
    by (simp add: power_int_add)
  finally have "\<bar>x\<bar> < 2 powi (53 + k)" .
  with binade_bounds(1) [OF xnz] have "(2::real) powi binade x < 2 powi (53 + k)" by simp
  then have "binade x < 53 + k" by (rule two_powi_less_imp)
  then show ?thesis using False unfolding x_def by simp
qed

text \<open>A dyadic number with at most 53 significant bits, in range, is a double.\<close>

lemma round_double_dyadic:
  fixes n k :: int
  assumes "\<bar>n\<bar> < 2 ^ 53" and "- 1074 \<le> k"
    and "\<bar>of_int n * 2 powi k\<bar> < (2::real) ^ 1024"
  shows "round_double (of_int n * 2 powi k) = Fin (of_int n * 2 powi k)"
proof (cases "n = 0")
  case True
  then show ?thesis by (simp add: round_double_def)
next
  case False
  define x :: real where "x = of_int n * 2 powi k"
  have xnz: "x \<noteq> 0" using False by (simp add: x_def)
  define q where "q = max (binade x) (- 1022) - 52"
  have "q \<le> k" unfolding q_def x_def using False assms(1,2) by (rule dyadic_quantum)
  define j where "j = nat (k - q)"
  have j: "k - q = int j" using \<open>q \<le> k\<close> by (simp add: j_def)
  have "x / 2 powi q = of_int n * (2 powi k / 2 powi q)" by (simp add: x_def)
  also have "2 powi k / 2 powi q = (2::real) powi (k - q)"
    by (simp add: power_int_diff)
  also have "of_int n * (2::real) powi (k - q) = of_int (n * 2 ^ j)"
    unfolding j by simp
  finally have xq: "x / 2 powi q = of_int (n * 2 ^ j)" .
  have "of_int (round_half_even (x / 2 powi q)) * 2 powi q = x / 2 powi q * 2 powi q"
    unfolding xq round_half_even_of_int ..
  also have "\<dots> = x" by simp
  finally have r: "of_int (round_half_even (x / 2 powi q)) * 2 powi q = x" .
  have b: "\<not> 2 ^ 1024 \<le> x" "\<not> x \<le> - (2 ^ 1024)"
    using assms(3) unfolding x_def [symmetric] by linarith+
  have "round_double x = Fin x"
    unfolding round_double_def Let_def q_def [symmetric] r using xnz b by (simp only: if_False)
  then show ?thesis by (simp only: x_def)
qed

lemma round_double_int:
  assumes "\<bar>n\<bar> < 2 ^ 53"
  shows "round_double (of_int n) = Fin (of_int n)"
proof -
  have "(of_int \<bar>n\<bar> :: real) < of_int (2 ^ 53)" using assms by (simp only: of_int_less_iff)
  then have "\<bar>of_int n :: real\<bar> < 2 ^ 53" by simp
  moreover have "(2::real) ^ 53 \<le> 2 ^ 1024" by (rule power_increasing) simp_all
  ultimately have "\<bar>of_int n * 2 powi 0\<bar> < (2::real) ^ 1024" by simp
  with round_double_dyadic [OF assms, of 0] show ?thesis by simp
qed

lemma int_to_float_small: "\<bar>n\<bar> < 2 ^ 53 \<Longrightarrow> int_to_float n = Inr (Fin (of_int n))"
  by (simp add: int_to_float_def round_double_int)



subsection \<open>Result combiner\<close>

lemma starts_with_append: "starts_with (p @ f) p"
  by (simp add: starts_with_def)

lemma py_remove_no_slash:
  "CHR ''/'' \<in> set old \<Longrightarrow> CHR ''/'' \<notin> set f \<Longrightarrow> py_remove f old = f"
proof (induction f)
  case Nil
  then show ?case by (simp add: py_remove.simps)
next
  case (Cons c cs)
  have "\<not> starts_with (c # cs) old"
  proof
    assume "starts_with (c # cs) old"
    then have "set old \<subseteq> set (c # cs)"
      unfolding starts_with_def by (metis set_take_subset)
    with Cons.prems show False by auto
  qed
  with Cons show ?case by (simp add: py_remove.simps)
qed

lemma py_remove_prefix:
  assumes "old \<noteq> []"
  shows "py_remove (old @ f) old = py_remove f old"
proof -
  obtain c cs where e: "old @ f = c # cs" using assms by (cases old) auto
  have "py_remove (c # cs) old = py_remove (drop (length old) (c # cs)) old"
    using assms starts_with_append [of old f] unfolding e by (simp add: py_remove.simps)
  then show ?thesis unfolding e [symmetric] by simp
qed

lemma required_no_slash: "f \<in> set required_files \<Longrightarrow> CHR ''/'' \<notin> set f"
  by (auto simp: required_files_def)

lemma prefix_has_slash: "CHR ''/'' \<in> set (result_prefix u)" "result_prefix u \<noteq> []"
  by (simp_all add: result_prefix_def)

lemma listed_found:
  assumes "f \<in> set required_files"
    and "result_prefix u @ f \<in> set (list_objects_v2 b (result_prefix u))"
  shows "f \<in> set (found_files b u)"
proof -
  have "py_remove (result_prefix u @ f) (result_prefix u) = f"
    using py_remove_prefix [OF prefix_has_slash(2), of u f]
      py_remove_no_slash [OF prefix_has_slash(1) required_no_slash [OF assms(1)], of u]
    by simp
  then show ?thesis
    unfolding found_files_def using assms(2) by force
qed

lemma missing_absent:
  "f \<in> set (missing_files b u) \<Longrightarrow>
     f \<in> set required_files \<and> result_prefix u @ f \<notin> set (list_objects_v2 b (result_prefix u))"
  unfolding missing_files_def using listed_found [of f u b] by auto

lemma stored_listed:
  assumes "map_of b (p @ f) = Some c"
    and "length (filter (\<lambda>k. starts_with k p) (map fst b)) \<le> 1000"
  shows "p @ f \<in> set (list_objects_v2 b p)"
proof -
  have "p @ f \<in> set (map fst b)" using assms(1) by (metis map_of_SomeD image_eqI fst_conv set_map)
  then have "p @ f \<in> set (filter (\<lambda>k. starts_with k p) (map fst b))"
    by (simp add: starts_with_append)
  then show ?thesis unfolding list_objects_v2_def using assms(2) by simp
qed

lemma read_results_absent:
  "f \<in> set fs \<Longrightarrow> map_of b (p @ f) = None \<Longrightarrow> \<exists>e. read_results jl b p acc fs = Inl e"
  by (induction fs arbitrary: acc) (auto simp: get_object_def split: option.splits)

lemma handler_failure_keeps_bucket:
  "compiler_lambda_handler jl jd b u = (Inl e, b') \<Longrightarrow> b' = b"
  by (auto simp: compiler_lambda_handler_def Let_def split: if_splits sum.splits)

lemma handler_absent_fails:
  assumes "f \<in> set required_files" "map_of b (result_prefix u @ f) = None"
  shows "\<exists>e. compiler_lambda_handler jl jd b u = (Inl e, b)"
proof -
  obtain e where "read_results jl b (result_prefix u) [] required_files = Inl e"
    using read_results_absent [OF assms] by blast
  then show ?thesis
    by (simp add: compiler_lambda_handler_def Let_def)
qed

lemma strip_json:
  "py_remove ''location_results.json'' ''.json'' = ''location_results''"
  "py_remove ''momentum_results.json'' ''.json'' = ''momentum_results''"
  "py_remove ''sector_results.json'' ''.json'' = ''sector_results''"
  "py_remove ''size_results.json'' ''.json'' = ''size_results''"
  "py_remove ''volatility_results.json'' ''.json'' = ''volatility_results''"
  by (simp_all add: starts_with_def py_remove.simps)


lemma handler_success:
  assumes "length (filter (\<lambda>k. starts_with k (result_prefix u)) (map fst b)) \<le> 1000"
    and "map_of b (result_prefix u @ ''location_results.json'') = Some c1" "jl c1 = Some d1"
    and "map_of b (result_prefix u @ ''momentum_results.json'') = Some c2" "jl c2 = Some d2"
    and "map_of b (result_prefix u @ ''sector_results.json'') = Some c3" "jl c3 = Some d3"
    and "map_of b (result_prefix u @ ''size_results.json'') = Some c4" "jl c4 = Some d4"
    and "map_of b (result_prefix u @ ''volatility_results.json'') = Some c5" "jl c5 = Some d5"
  shows "compiler_lambda_handler jl jd b u =
        (Inr (Response 200 (jd (PStr ''Hello from Lambda!''))),
         put_object b (u @ ''_combined_results.json'')
           (jd (PDict [(''location_results'', d1), (''momentum_results'', d2), (''sector_results'', d3), (''size_results'', d4), (''volatility_results'', d5)])))"
proof -
  have stored: "\<exists>c. map_of b (result_prefix u @ f) = Some c" if "f \<in> set required_files" for f
    using that assms(2,4,6,8,10) by (auto simp: required_files_def)
  have listed: "result_prefix u @ f \<in> set (list_objects_v2 b (result_prefix u))"
    if "f \<in> set required_files" for f
    using stored [OF that] stored_listed [OF _ assms(1)] by blast
  have ne: "list_objects_v2 b (result_prefix u) \<noteq> []"
    using listed [of "''location_results.json''"] by (auto simp: required_files_def)
  have "f \<in> set (found_files b u)" if "f \<in> set required_files" for f
    using listed_found [OF that listed [OF that]] .
  then have nomiss: "missing_files b u = []"
    unfolding missing_files_def by (simp add: filter_empty_conv)
  have rd: "read_results jl b (result_prefix u) [] required_files =
      Inr [(''location_results'', d1), (''momentum_results'', d2), (''sector_results'', d3), (''size_results'', d4), (''volatility_results'', d5)]"
    unfolding required_files_def
    by (simp add: get_object_def strip_json assms(2-))
  show ?thesis
    using ne nomiss rd by (simp add: compiler_lambda_handler_def Let_def)
qed

text \<open>
  C5, as amended. When no object at all is listed under the portfolio's prefix, the
  combiner fails with ``No files found under'' the prefix, which names no key. When
  something is listed and a required file name is not among the listed names, it fails
  with ``Missing required result files'' followed by exactly those names, each of which
  is a required file whose key is not listed. A required key that is absent from the
  bucket always makes the handler fail, and a handler that fails leaves the bucket as it
  was: nothing is merged in part. When the five keys are stored (and listed in the first
  response) and their bodies decode, one object is written under
  \<open>{id}_combined_results.json\<close>: the five documents, keyed by the file names without
  \<open>.json\<close> (\<open>location_results\<close>, \<dots>, \<open>volatility_results\<close>).
\<close>

theorem combiner_contract:
  "(list_objects_v2 b (result_prefix u) = [] \<longrightarrow>
      compiler_lambda_handler jl jd b u =
        (Inl (Exception (''No files found under '' @ result_prefix u)), b)) \<and>
   (list_objects_v2 b (result_prefix u) \<noteq> [] \<and> missing_files b u \<noteq> [] \<longrightarrow>
      compiler_lambda_handler jl jd b u =
        (Inl (Exception (''Missing required result files: '' @ py_repr_list (missing_files b u))), b)) \<and>
   (\<forall>f\<in>set (missing_files b u).
      f \<in> set required_files \<and>
      result_prefix u @ f \<notin> set (list_objects_v2 b (result_prefix u))) \<and>
   (\<forall>f\<in>set required_files. map_of b (result_prefix u @ f) = None \<longrightarrow>
      (\<exists>e. compiler_lambda_handler jl jd b u = (Inl e, b))) \<and>
   (\<forall>e b'. compiler_lambda_handler jl jd b u = (Inl e, b') \<longrightarrow> b' = b) \<and>
   (\<forall>c1 c2 c3 c4 c5 d1 d2 d3 d4 d5.
      length (filter (\<lambda>k. starts_with k (result_prefix u)) (map fst b)) \<le> 1000 \<and>
      map_of b (result_prefix u @ ''location_results.json'') = Some c1 \<and> jl c1 = Some d1 \<and>
      map_of b (result_prefix u @ ''momentum_results.json'') = Some c2 \<and> jl c2 = Some d2 \<and>
      map_of b (result_prefix u @ ''sector_results.json'') = Some c3 \<and> jl c3 = Some d3 \<and>
      map_of b (result_prefix u @ ''size_results.json'') = Some c4 \<and> jl c4 = Some d4 \<and>
      map_of b (result_prefix u @ ''volatility_results.json'') = Some c5 \<and> jl c5 = Some d5 \<longrightarrow>
      compiler_lambda_handler jl jd b u =
        (Inr (Response 200 (jd (PStr ''Hello from Lambda!''))),
         put_object b (u @ ''_combined_results.json'')
           (jd (PDict [(''location_results'', d1), (''momentum_results'', d2), (''sector_results'', d3), (''size_results'', d4), (''volatility_results'', d5)]))))"
proof (intro conjI allI ballI impI)
  assume "list_objects_v2 b (result_prefix u) = []"
  then show "compiler_lambda_handler jl jd b u =
        (Inl (Exception (''No files found under '' @ result_prefix u)), b)"
    by (simp add: compiler_lambda_handler_def Let_def)
next
  assume "list_objects_v2 b (result_prefix u) \<noteq> [] \<and> missing_files b u \<noteq> []"
  then show "compiler_lambda_handler jl jd b u =
        (Inl (Exception (''Missing required result files: '' @ py_repr_list (missing_files b u))), b)"
    by (simp add: compiler_lambda_handler_def Let_def)
next
  fix f assume "f \<in> set (missing_files b u)"
  then show "f \<in> set required_files"
    and "result_prefix u @ f \<notin> set (list_objects_v2 b (result_prefix u))"
    using missing_absent by blast+
next
  fix f assume "f \<in> set required_files" "map_of b (result_prefix u @ f) = None"
  then show "\<exists>e. compiler_lambda_handler jl jd b u = (Inl e, b)"
    by (rule handler_absent_fails)
next
  fix e b' assume "compiler_lambda_handler jl jd b u = (Inl e, b')"
  then show "b' = b" by (rule handler_failure_keeps_bucket)
next
  fix c1 c2 c3 c4 c5 d1 d2 d3 d4 d5
  assume "length (filter (\<lambda>k. starts_with k (result_prefix u)) (map fst b)) \<le> 1000 \<and>
      map_of b (result_prefix u @ ''location_results.json'') = Some c1 \<and> jl c1 = Some d1 \<and>
      map_of b (result_prefix u @ ''momentum_results.json'') = Some c2 \<and> jl c2 = Some d2 \<and>
      map_of b (result_prefix u @ ''sector_results.json'') = Some c3 \<and> jl c3 = Some d3 \<and>
      map_of b (result_prefix u @ ''size_results.json'') = Some c4 \<and> jl c4 = Some d4 \<and>
      map_of b (result_prefix u @ ''volatility_results.json'') = Some c5 \<and> jl c5 = Some d5"
  then show "compiler_lambda_handler jl jd b u =
        (Inr (Response 200 (jd (PStr ''Hello from Lambda!''))),
         put_object b (u @ ''_combined_results.json'')
           (jd (PDict [(''location_results'', d1), (''momentum_results'', d2), (''sector_results'', d3), (''size_results'', d4), (''volatility_results'', d5)])))"
    using handler_success [of u b c1 jl d1 c2 d2 c3 d3 c4 d4 c5 d5 jd] by blast
qed

text \<open>
  C5 as stated fails on a portfolio for which nothing has been written yet: all five keys
  are missing, and the error is the one of the empty listing, which names none of them.
\<close>

theorem combiner_no_files_counterexample:
  "compiler_lambda_handler (map_of []) (\<lambda>doc. []) [] ''p1'' =
     (Inl (Exception ''No files found under results/p1/''), []) \<and>
   missing_files [] ''p1'' = required_files \<and>
   compiler_lambda_handler (map_of []) (\<lambda>doc. []) [] ''p1'' \<noteq>
     (Inl (Exception (''Missing required result files: '' @ py_repr_list required_files)), [])"
  by (simp add: compiler_lambda_handler_def Let_def list_objects_v2_def result_prefix_def
      missing_files_def found_files_def required_files_def py_repr_list_def)


theorem combiner_contract_witness:
  "compiler_lambda_handler (Some \<circ> PStr) (\<lambda>doc. ''{}'')
     [(''results/p1/location_results.json'', ''1''),
      (''results/p1/momentum_results.json'', ''2''),
      (''results/p1/sector_results.json'', ''3''),
      (''results/p1/volatility_results.json'', ''5'')] ''p1'' =
     (Inl (Exception (''Missing required result files: ['' @ [CHR 0x27] @ ''size_results.json''
            @ [CHR 0x27] @ '']'')),
      [(''results/p1/location_results.json'', ''1''),
      (''results/p1/momentum_results.json'', ''2''),
      (''results/p1/sector_results.json'', ''3''),
      (''results/p1/volatility_results.json'', ''5'')]) \<and>
   compiler_lambda_handler (Some \<circ> PStr) (\<lambda>doc. ''{}'')
     [(''results/p1/location_results.json'', ''1''),
      (''results/p1/momentum_results.json'', ''2''),
      (''results/p1/sector_results.json'', ''3''),
      (''results/p1/size_results.json'', ''4''),
      (''results/p1/volatility_results.json'', ''5'')] ''p1'' =
     (Inr (Response 200 ''{}''),
      put_object [(''results/p1/location_results.json'', ''1''),
      (''results/p1/momentum_results.json'', ''2''),
      (''results/p1/sector_results.json'', ''3''),
      (''results/p1/size_results.json'', ''4''),
      (''results/p1/volatility_results.json'', ''5'')] ''p1_combined_results.json'' ''{}'')"
proof -
  let ?jl = "Some \<circ> PStr" and ?jd = "\<lambda>doc::pyval. ''{}''"
  let ?b4 = "[(''results/p1/location_results.json'', ''1''),
      (''results/p1/momentum_results.json'', ''2''),
      (''results/p1/sector_results.json'', ''3''),
      (''results/p1/volatility_results.json'', ''5'')]"
  let ?b5 = "[(''results/p1/location_results.json'', ''1''),
      (''results/p1/momentum_results.json'', ''2''),
      (''results/p1/sector_results.json'', ''3''),
      (''results/p1/size_results.json'', ''4''),
      (''results/p1/volatility_results.json'', ''5'')]"
  have l: "list_objects_v2 ?b4 (result_prefix ''p1'') \<noteq> []"
    by (simp add: list_objects_v2_def result_prefix_def starts_with_def)
  have m: "missing_files ?b4 ''p1'' = [''size_results.json'']"
    by (simp add: missing_files_def found_files_def list_objects_v2_def result_prefix_def
        starts_with_def required_files_def py_remove.simps)
  have A: "compiler_lambda_handler ?jl ?jd ?b4 ''p1'' =
     (Inl (Exception (''Missing required result files: ['' @ [CHR 0x27] @ ''size_results.json''
            @ [CHR 0x27] @ '']'')), ?b4)"
    using combiner_contract [of ?b4 "''p1''" ?jl ?jd, THEN conjunct2, THEN conjunct1] l
    unfolding m by (simp add: py_repr_list_def)
  have len: "length (filter (\<lambda>k. starts_with k (result_prefix ''p1'')) (map fst ?b5)) \<le> 1000"
    by simp
  have B: "compiler_lambda_handler ?jl ?jd ?b5 ''p1'' =
     (Inr (Response 200 ''{}''), put_object ?b5 ''p1_combined_results.json'' ''{}'')"
    using combiner_contract [of ?b5 "''p1''" ?jl ?jd, THEN conjunct2, THEN conjunct2,
        THEN conjunct2, THEN conjunct2, THEN conjunct2, rule_format,
        of "''1''" "PStr ''1''" "''2''" "PStr ''2''" "''3''" "PStr ''3''" "''4''" "PStr ''4''" "''5''" "PStr ''5''"] len
    by (simp add: result_prefix_def)
  show ?thesis using A B by simp
qed



subsection \<open>Sector aggregation\<close>

lemma map_of_dict_set: "map_of (dict_set d k v) = (map_of d)(k \<mapsto> v)"
  by (induction d) (auto simp: fun_upd_twist)

lemma keys_dict_set: "fst ` set (dict_set d k v) = insert k (fst ` set d)"
proof -
  have "fst ` set (dict_set d k v) = dom (map_of (dict_set d k v))"
    by (simp only: dom_map_of_conv_image_fst)
  also have "\<dots> = insert k (dom (map_of d))" by (simp add: map_of_dict_set)
  also have "\<dots> = insert k (fst ` set d)" by (simp only: dom_map_of_conv_image_fst)
  finally show ?thesis .
qed

lemma distinct_dict_set: "distinct (map fst d) \<Longrightarrow> distinct (map fst (dict_set d k v))"
proof (induction d)
  case Nil
  then show ?case by simp
next
  case (Cons a d)
  obtain k' v' where a: "a = (k', v')" by (cases a)
  show ?case
  proof (cases "k' = k")
    case True
    with Cons.prems show ?thesis by (simp add: a)
  next
    case False
    have "k' \<notin> fst ` set (dict_set d k v)"
      unfolding keys_dict_set using False Cons.prems by (simp add: a)
    with Cons False show ?thesis by (simp add: a)
  qed
qed

























end
